theory Spec2Isabelle
  imports Complex_Main
begin

section \<open>The WebSocket server manager of Firebot\<close>

text \<open>
  A shallow embedding of \<^verbatim>\<open>src/server/websocket-server-manager.ts\<close>: the listener that
  \<^verbatim>\<open>createServer\<close> installs on every accepted connection, the registration timer,
  \<^verbatim>\<open>triggerEvent\<close> and the registry of custom listeners.

  What the manager does to the outside world (\<^verbatim>\<open>ws.send\<close>, \<^verbatim>\<open>ws.close\<close>, a plugin
  callback, a logger call) is returned as a list of effects, in program order; the
  transport's \<^verbatim>\<open>send\<close> and the logger return normally, its \<^verbatim>\<open>close\<close> can throw.
  A plugin callback is known only by what it returns or throws. The built-ins \<^verbatim>\<open>JSON.parse\<close> and \<^verbatim>\<open>String.prototype.toLowerCase\<close> are parameters
  (\<open>parse\<close>, \<open>lc\<close>) of the functions that call them, so every theorem holds for
  whatever the JavaScript engine computes there.
\<close>

subsection \<open>JavaScript values\<close>

text \<open>
  The values \<^verbatim>\<open>JSON.parse\<close> produces. An object is the list of its properties, read
  with \<open>map_of\<close>; \<^verbatim>\<open>undefined\<close> (a property that is absent) is \<open>None\<close> of
  \<open>json option\<close>. The manager never computes with a number: it only passes the \<^verbatim>\<open>id\<close>
  and the \<^verbatim>\<open>data\<close> of a message on.
\<close>

datatype json =
    JNull
  | JBool bool
  | JNum real
  | JStr string
  | JArr "json list"
  | JObj "(string \<times> json) list"

text \<open>
  Thrown values. \<open>SyntaxError\<close> is what \<^verbatim>\<open>JSON.parse\<close> throws, \<open>TypeError\<close> what the
  engine throws on a property read of \<^verbatim>\<open>null\<close> or \<^verbatim>\<open>undefined\<close> or on a call of a
  non-function, \<open>RangeError\<close> what the transport's \<^verbatim>\<open>close\<close> throws. A plugin callback
  throws \<^verbatim>\<open>null\<close> (\<open>ThrownNull\<close>), \<^verbatim>\<open>undefined\<close> (\<open>ThrownUndefined\<close>) or any other
  value (\<open>Thrown m\<close>), whose \<^verbatim>\<open>message\<close> is the string \<open>m\<close> or is undefined.
\<close>

datatype error =
    SyntaxError string
  | TypeError string
  | RangeError string
  | Thrown "string option"
  | ThrownNull
  | ThrownUndefined

text \<open>The texts of the errors that the engine (V8) and the transport (ws) throw.\<close>

definition null_read :: string where
  "null_read = ''Cannot read properties of null (reading 'type')''"

definition not_a_function :: string where
  "not_a_function = ''pluginName.toLowerCase is not a function''"

definition null_message :: string where
  "null_message = ''Cannot read properties of null (reading 'message')''"

definition undefined_message :: string where
  "undefined_message = ''Cannot read properties of undefined (reading 'message')''"

definition reason_too_long :: string where
  "reason_too_long = ''The message must not be greater than 123 bytes''"

text \<open>
  \<^verbatim>\<open>(error as Error).message\<close>: the read throws when the thrown value is \<^verbatim>\<open>null\<close> or
  \<^verbatim>\<open>undefined\<close>.
\<close>

fun message_of :: "error \<Rightarrow> error + string option" where
  "message_of (SyntaxError m) = Inr (Some m)"
| "message_of (TypeError m) = Inr (Some m)"
| "message_of (RangeError m) = Inr (Some m)"
| "message_of (Thrown m) = Inr m"
| "message_of ThrownNull = Inl (TypeError null_message)"
| "message_of ThrownUndefined = Inl (TypeError undefined_message)"

subsection \<open>Connections, frames and effects\<close>

text \<open>
  The timer behind \<^verbatim>\<open>ws.registrationTimeout\<close>: none yet (the field is undefined),
  pending with the time (in ms) at which it is due, cleared by \<^verbatim>\<open>clearTimeout\<close>, or
  fired.
\<close>

datatype timer = NoTimer | Pending nat | Cleared | Fired

fun clearTimeout :: "timer \<Rightarrow> timer" where
  "clearTimeout (Pending d) = Cleared"
| "clearTimeout t = t"

text \<open>
  A \<^verbatim>\<open>WebSocketClient\<close>: \<open>ident\<close> is the identity of the object, \<open>wsType\<close> the field
  \<^verbatim>\<open>ws.type\<close> (\<open>None\<close> while it is null or undefined), \<open>readyState\<close> the transport's
  state (1 is OPEN, 3 is CLOSED).
\<close>

record WebSocketClient =
  ident :: nat
  wsType :: "string option"
  registrationTimeout :: timer
  readyState :: nat

text \<open>
  Outbound frames: \<open>ResponseMessage id name data\<close> is
  \<^verbatim>\<open>{type: "response", id, name, data}\<close> and \<open>EventMessage name data\<close> is
  \<^verbatim>\<open>{type: "event", name, data}\<close>.
\<close>

datatype frame =
    ResponseMessage "json option" string json
  | EventMessage string "json option"

datatype level = Debug | Info | Error

text \<open>
  \<open>Send c f\<close> is \<^verbatim>\<open>c.send(JSON.stringify(f))\<close>, \<open>Close c code reason\<close> is a call
  \<^verbatim>\<open>c.close(code, reason)\<close> that returns, \<open>Call n d\<close> is the call of the callback
  registered under the name \<open>n\<close> with the argument \<open>d\<close>, \<open>Log l\<close> a call of the
  logger at level \<open>l\<close> (the text of a log line is not modelled), and \<open>Uncaught e\<close> is
  the exception \<open>e\<close> leaving the listener that threw it.
\<close>

datatype effect =
    Send nat frame
  | Close nat nat "string option"
  | Call string "json option"
  | Log level
  | Uncaught error

text \<open>
  \<^verbatim>\<open>ws.close(code, reason)\<close> as the transport (ws 7) does it: on an open connection
  and with a reason longer than 123 bytes, it throws a range error and writes no close
  frame; in every other case it returns. A string is the list of its bytes, which is
  what the transport counts.
\<close>

definition wsClose :: "WebSocketClient \<Rightarrow> nat \<Rightarrow> string option \<Rightarrow> effect list" where
  "wsClose ws code reason =
     (if readyState ws = 1 \<and> (case reason of None \<Rightarrow> False | Some r \<Rightarrow> 123 < length r)
      then [Uncaught (RangeError reason_too_long)]
      else [Close (ident ws) code reason])"

record CustomWebSocketHandler =
  pluginName :: string
  callback :: "json option \<Rightarrow> error option"

text \<open>
  A callback returns \<open>None\<close> when it returns normally and \<open>Some e\<close> when it throws
  \<open>e\<close>.
\<close>

subsection \<open>sendResponse and sendError\<close>

text \<open>
  \<^verbatim>\<open>sendResponse(ws, messageId, data = null)\<close>: the default takes the place of an
  argument that is undefined.
\<close>

definition sendResponse :: "WebSocketClient \<Rightarrow> json option \<Rightarrow> json option \<Rightarrow> effect list" where
  "sendResponse ws messageId data =
     [Send (ident ws)
        (ResponseMessage messageId ''success'' (case data of None \<Rightarrow> JNull | Some d \<Rightarrow> d))]"

definition sendError :: "WebSocketClient \<Rightarrow> json option \<Rightarrow> string \<Rightarrow> effect list" where
  "sendError ws messageId errorMessage =
     [Send (ident ws) (ResponseMessage messageId ''error'' (JStr errorMessage))]"

subsection \<open>The message listener\<close>

text \<open>
  \<^verbatim>\<open>this.customHandlers.find(p => p.pluginName.toLowerCase() === pluginName.toLowerCase())\<close>.
  The predicate runs once per entry until one matches; on an empty table it never runs.
  When it runs and \<^verbatim>\<open>pluginName\<close> is not a string, \<^verbatim>\<open>pluginName.toLowerCase\<close> is not
  a function and the call throws.
\<close>

fun find_handler ::
  "(string \<Rightarrow> string) \<Rightarrow> CustomWebSocketHandler list \<Rightarrow> json \<Rightarrow> error + CustomWebSocketHandler option"
where
  "find_handler lc [] pn = Inr None"
| "find_handler lc (p # ps) pn =
     (case pn of
        JStr s \<Rightarrow> if lc (pluginName p) = lc s then Inr (Some p) else find_handler lc ps pn
      | _ \<Rightarrow> Inl (TypeError not_a_function))"

text \<open>
  The three functions below return the connection as the listener leaves it, the
  effects so far, and the exception that left the \<^verbatim>\<open>try\<close> block, if any.
\<close>

text \<open>\<^verbatim>\<open>case "subscribe-events"\<close>.\<close>

definition subscribeEvents ::
  "WebSocketClient \<Rightarrow> json option \<Rightarrow> WebSocketClient \<times> effect list \<times> error option"
where
  "subscribeEvents ws messageId =
     (if wsType ws \<noteq> None then (ws, sendError ws messageId ''socket already subscribed'', None)
      else
        let ws' = ws\<lparr>registrationTimeout := clearTimeout (registrationTimeout ws),
                     wsType := Some ''events''\<rparr>
        in (ws', [Log Info] @ sendResponse ws' messageId None, None))"

text \<open>\<^verbatim>\<open>case "plugin"\<close>; \<open>props\<close> are the properties of the message.\<close>

definition invokePlugin ::
  "(string \<Rightarrow> string) \<Rightarrow> CustomWebSocketHandler list \<Rightarrow> WebSocketClient \<Rightarrow> (string \<times> json) list
     \<Rightarrow> WebSocketClient \<times> effect list \<times> error option"
where
  "invokePlugin lc handlers ws props =
     (case map_of props ''pluginName'' of
        None \<Rightarrow> (ws, sendError ws (map_of props ''id'') ''Must specify pluginName'', None)
      | Some pn \<Rightarrow>
          if pn = JNull \<or> pn = JStr '''' then
            (ws, sendError ws (map_of props ''id'') ''Must specify pluginName'', None)
          else
            (case find_handler lc handlers pn of
               Inl e \<Rightarrow> (ws, [], Some e)
             | Inr (Some plugin) \<Rightarrow>
                 (ws, [Call (pluginName plugin) (map_of props ''data'')],
                  callback plugin (map_of props ''data''))
             | Inr None \<Rightarrow>
                 (ws, sendError ws (map_of props ''id'') ''Unknown plugin name specified'', None)))"

text \<open>
  The body of the \<^verbatim>\<open>try\<close> block after \<^verbatim>\<open>JSON.parse\<close>: the two nested switches. Reading
  \<^verbatim>\<open>message.type\<close> throws when the message is \<^verbatim>\<open>null\<close> and is undefined when it is a
  number, a string, a boolean or an array.
\<close>

definition dispatch ::
  "(string \<Rightarrow> string) \<Rightarrow> CustomWebSocketHandler list \<Rightarrow> WebSocketClient \<Rightarrow> json
     \<Rightarrow> WebSocketClient \<times> effect list \<times> error option"
where
  "dispatch lc handlers ws msg =
     (case msg of
        JNull \<Rightarrow> (ws, [], Some (TypeError null_read))
      | JObj props \<Rightarrow>
          if map_of props ''type'' = Some (JStr ''invoke'') then
            (if map_of props ''name'' = Some (JStr ''subscribe-events'') then
               subscribeEvents ws (map_of props ''id'')
             else if map_of props ''name'' = Some (JStr ''plugin'') then
               invokePlugin lc handlers ws props
             else (ws, sendError ws (map_of props ''id'') ''unknown command invocation'', None))
          else (ws, [], None)
      | _ \<Rightarrow> (ws, [], None))"

text \<open>The \<^verbatim>\<open>try\<close> block: \<open>parse\<close> returns \<open>Inl m\<close> when \<^verbatim>\<open>JSON.parse\<close> throws a
  syntax error with the message \<open>m\<close>.\<close>

definition tryBlock ::
  "(string \<Rightarrow> string + json) \<Rightarrow> (string \<Rightarrow> string) \<Rightarrow> CustomWebSocketHandler list
     \<Rightarrow> WebSocketClient \<Rightarrow> string \<Rightarrow> WebSocketClient \<times> effect list \<times> error option"
where
  "tryBlock parse lc handlers ws data =
     (case parse data of
        Inl m \<Rightarrow> (ws, [], Some (SyntaxError m))
      | Inr msg \<Rightarrow> dispatch lc handlers ws msg)"

text \<open>
  The \<^verbatim>\<open>catch\<close> block, \<^verbatim>\<open>ws.close(4006, (error as Error).message)\<close>: an exception
  of the read of the message or of the close leaves the listener.
\<close>

definition catchBlock :: "WebSocketClient \<Rightarrow> error \<Rightarrow> effect list" where
  "catchBlock ws e =
     (case message_of e of
        Inl t \<Rightarrow> [Uncaught t]
      | Inr m \<Rightarrow> wsClose ws 4006 m)"

text \<open>The listener of \<^verbatim>\<open>ws.on('message', ...)\<close>: the debug log line, the \<^verbatim>\<open>try\<close> block
  and its \<^verbatim>\<open>catch\<close>.\<close>

definition onMessage ::
  "(string \<Rightarrow> string + json) \<Rightarrow> (string \<Rightarrow> string) \<Rightarrow> CustomWebSocketHandler list
     \<Rightarrow> WebSocketClient \<Rightarrow> string \<Rightarrow> WebSocketClient \<times> effect list"
where
  "onMessage parse lc handlers ws data =
     (case tryBlock parse lc handlers ws data of
        (ws', effs, None) \<Rightarrow> (ws', Log Debug # effs)
      | (ws', effs, Some e) \<Rightarrow> (ws', Log Debug # effs @ catchBlock ws' e))"

subsection \<open>The connection listener and the registration timer\<close>

text \<open>
  The listener of \<^verbatim>\<open>server.on('connection', ...)\<close> at the time \<open>now\<close> (in ms):
  \<^verbatim>\<open>setTimeout(..., 5000)\<close> creates a timer due 5000 ms later. (It also installs
  \<open>onMessage\<close>; it installs no listener for the \<^verbatim>\<open>close\<close> event.)
\<close>

definition onConnection :: "nat \<Rightarrow> WebSocketClient \<Rightarrow> WebSocketClient" where
  "onConnection now ws = ws\<lparr>registrationTimeout := Pending (now + 5000)\<rparr>"

text \<open>The callback given to \<^verbatim>\<open>setTimeout\<close>.\<close>

definition registrationTimedOut :: "WebSocketClient \<Rightarrow> effect list" where
  "registrationTimedOut ws = Log Info # wsClose ws 4000 (Some ''Registration timed out'')"

text \<open>
  The timer phase of the event loop at the time \<open>now\<close>: a pending timer that is due
  runs its callback and is spent; a timer that is not due, cleared or spent does nothing.
\<close>

definition timerTick :: "nat \<Rightarrow> WebSocketClient \<Rightarrow> WebSocketClient \<times> effect list" where
  "timerTick now ws =
     (case registrationTimeout ws of
        Pending due \<Rightarrow>
          if due \<le> now then (ws\<lparr>registrationTimeout := Fired\<rparr>, registrationTimedOut ws)
          else (ws, [])
      | _ \<Rightarrow> (ws, []))"

text \<open>
  The transport closes the connection: its state becomes CLOSED. The manager has no
  listener for this event, so none of its code runs.
\<close>

definition transportClosed :: "WebSocketClient \<Rightarrow> WebSocketClient" where
  "transportClosed ws = ws\<lparr>readyState := 3\<rparr>"

text \<open>What can happen to an accepted connection, and a run of such events.\<close>

datatype event = MessageEvent string | TimerEvent nat | CloseEvent

fun step ::
  "(string \<Rightarrow> string + json) \<Rightarrow> (string \<Rightarrow> string) \<Rightarrow> CustomWebSocketHandler list
     \<Rightarrow> WebSocketClient \<Rightarrow> event \<Rightarrow> WebSocketClient \<times> effect list"
where
  "step parse lc handlers ws (MessageEvent data) = onMessage parse lc handlers ws data"
| "step parse lc handlers ws (TimerEvent now) = timerTick now ws"
| "step parse lc handlers ws CloseEvent = (transportClosed ws, [])"

fun run ::
  "(string \<Rightarrow> string + json) \<Rightarrow> (string \<Rightarrow> string) \<Rightarrow> CustomWebSocketHandler list
     \<Rightarrow> WebSocketClient \<Rightarrow> event list \<Rightarrow> WebSocketClient \<times> effect list"
where
  "run parse lc handlers ws [] = (ws, [])"
| "run parse lc handlers ws (e # es) =
     (let (ws1, a) = step parse lc handlers ws e;
          (ws2, b) = run parse lc handlers ws1 es
      in (ws2, a @ b))"

subsection \<open>The manager\<close>

text \<open>
  \<open>server\<close> is \<open>None\<close> until \<^verbatim>\<open>createServer\<close> has run, and then holds
  \<^verbatim>\<open>this.server.clients\<close>, the tracked connections in insertion order.
\<close>

record WebSocketServerManager =
  server :: "WebSocketClient list option"
  customHandlers :: "CustomWebSocketHandler list"

subsection \<open>triggerEvent\<close>

text \<open>The function \<^verbatim>\<open>each\<close> given to \<^verbatim>\<open>this.server.clients.forEach\<close>.\<close>

definition each :: "frame \<Rightarrow> WebSocketClient \<Rightarrow> effect list" where
  "each dataRaw client =
     (if readyState client \<noteq> 1 \<or> wsType client \<noteq> Some ''events'' then []
      else [Send (ident client) dataRaw])"

fun forEach :: "('a \<Rightarrow> effect list) \<Rightarrow> 'a list \<Rightarrow> effect list" where
  "forEach f [] = []"
| "forEach f (x # xs) = f x @ forEach f xs"

definition triggerEvent :: "WebSocketServerManager \<Rightarrow> string \<Rightarrow> json option \<Rightarrow> effect list" where
  "triggerEvent M eventType payload =
     (case server M of
        None \<Rightarrow> []
      | Some clients \<Rightarrow>
          let dataRaw = EventMessage eventType payload
          in forEach (each dataRaw) clients)"

text \<open>
  The callback given to \<^verbatim>\<open>client.send\<close>; the transport calls it when the send is
  done, with the error if there was one.
\<close>

definition sendDone :: "string option \<Rightarrow> effect list" where
  "sendDone err = (case err of None \<Rightarrow> [] | Some m \<Rightarrow> [Log Error])"

text \<open>
  \<^verbatim>\<open>triggerEvent\<close> together with the completion of its sends, which the transport
  reports after \<^verbatim>\<open>triggerEvent\<close> has returned: \<open>outcome c\<close> is the error with which
  the send on the connection \<open>c\<close> ends (\<open>None\<close> when it succeeds).
\<close>

fun completion :: "(nat \<Rightarrow> string option) \<Rightarrow> effect \<Rightarrow> effect list" where
  "completion outcome (Send c f) = sendDone (outcome c)"
| "completion outcome e = []"

definition triggerEventSettled ::
  "(nat \<Rightarrow> string option) \<Rightarrow> WebSocketServerManager \<Rightarrow> string \<Rightarrow> json option \<Rightarrow> effect list"
where
  "triggerEventSettled outcome M eventType payload =
     (let sends = triggerEvent M eventType payload
      in sends @ forEach (completion outcome) sends)"

subsection \<open>The registry of custom listeners\<close>

text \<open>
  \<^verbatim>\<open>this.customHandlers.findIndex(p => p.pluginName.toLowerCase() === pluginName.toLowerCase())\<close>,
  with a name that is a string.
\<close>

fun findIndex :: "(string \<Rightarrow> string) \<Rightarrow> CustomWebSocketHandler list \<Rightarrow> string \<Rightarrow> int" where
  "findIndex lc [] n = - 1"
| "findIndex lc (p # ps) n =
     (if lc (pluginName p) = lc n then 0
      else let i = findIndex lc ps n in if i = - 1 then - 1 else i + 1)"

definition registerCustomWebSocketListener ::
  "(string \<Rightarrow> string) \<Rightarrow> WebSocketServerManager \<Rightarrow> string \<Rightarrow> (json option \<Rightarrow> error option)
     \<Rightarrow> WebSocketServerManager \<times> effect list \<times> bool"
where
  "registerCustomWebSocketListener lc M name cb =
     (if findIndex lc (customHandlers M) name = - 1 then
        (M\<lparr>customHandlers := customHandlers M @ [\<lparr>pluginName = name, callback = cb\<rparr>]\<rparr>,
         [Log Info], True)
      else (M, [Log Error], False))"

definition unregisterCustomWebSocketListener ::
  "(string \<Rightarrow> string) \<Rightarrow> WebSocketServerManager \<Rightarrow> string
     \<Rightarrow> WebSocketServerManager \<times> effect list \<times> bool"
where
  "unregisterCustomWebSocketListener lc M name =
     (let pluginHandlerIndex = findIndex lc (customHandlers M) name
      in if pluginHandlerIndex \<noteq> - 1 then
           (M\<lparr>customHandlers :=
                take (nat pluginHandlerIndex) (customHandlers M)
                  @ drop (nat pluginHandlerIndex + 1) (customHandlers M)\<rparr>,
            [Log Info], True)
         else (M, [Log Error], False))"

text \<open>A run of registry operations on a manager.\<close>

datatype registry_op =
    Register string "json option \<Rightarrow> error option"
  | Unregister string

fun apply_op ::
  "(string \<Rightarrow> string) \<Rightarrow> WebSocketServerManager \<Rightarrow> registry_op \<Rightarrow> WebSocketServerManager"
where
  "apply_op lc M (Register name cb) = fst (registerCustomWebSocketListener lc M name cb)"
| "apply_op lc M (Unregister name) = fst (unregisterCustomWebSocketListener lc M name)"

text \<open>The manager as its constructor leaves it.\<close>

definition manager :: WebSocketServerManager where
  "manager = \<lparr>server = None, customHandlers = []\<rparr>"

subsection \<open>Reading a list of effects\<close>

text \<open>
  \<open>sends effs\<close> are the frames sent in \<open>effs\<close>, each with its connection;
  \<open>calls effs\<close> the callbacks called, each with its argument; \<open>watchdogClose c\<close>
  holds of a \<^verbatim>\<open>close\<close> of the connection \<open>c\<close> with the code 4000.
\<close>

fun sent :: "effect \<Rightarrow> (nat \<times> frame) list" where
  "sent (Send c f) = [(c, f)]"
| "sent e = []"

definition sends :: "effect list \<Rightarrow> (nat \<times> frame) list" where
  "sends effs = concat (map sent effs)"

fun called :: "effect \<Rightarrow> (string \<times> json option) list" where
  "called (Call n d) = [(n, d)]"
| "called e = []"

definition calls :: "effect list \<Rightarrow> (string \<times> json option) list" where
  "calls effs = concat (map called effs)"

fun watchdogClose :: "nat \<Rightarrow> effect \<Rightarrow> bool" where
  "watchdogClose c (Close d code reason) = (d = c \<and> code = 4000)"
| "watchdogClose c e = False"


subsection \<open>Sample inputs\<close>

text \<open>
  Concrete built-ins, frames, connections and handlers at which the definitions are
  evaluated below: \<^verbatim>\<open>toLowerCase\<close> on ASCII text, and \<^verbatim>\<open>JSON.parse\<close> on a handful of
  frames.
\<close>

definition asciiLower :: "char \<Rightarrow> char" where
  "asciiLower c =
     (case map_of (zip ''ABCDEFGHIJKLMNOPQRSTUVWXYZ'' ''abcdefghijklmnopqrstuvwxyz'') c of
        Some l \<Rightarrow> l
      | None \<Rightarrow> c)"

definition asciiLowerCase :: "string \<Rightarrow> string" where
  "asciiLowerCase s = map asciiLower s"

definition subscribeFrame :: json where
  "subscribeFrame =
     JObj [(''type'', JStr ''invoke''), (''id'', JNum 1), (''name'', JStr ''subscribe-events'')]"

definition subscribeText :: string where
  \<open>subscribeText = ''{"type":"invoke","id":1,"name":"subscribe-events"}''\<close>

definition pluginFrame :: "json \<Rightarrow> json" where
  "pluginFrame pn =
     JObj [(''type'', JStr ''invoke''), (''id'', JNum 1), (''name'', JStr ''plugin''),
           (''pluginName'', pn), (''data'', JNum 42)]"

definition pluginFooText :: string where
  \<open>pluginFooText = ''{"type":"invoke","id":1,"name":"plugin","pluginName":"Foo","data":42}''\<close>

definition pluginBarText :: string where
  \<open>pluginBarText = ''{"type":"invoke","id":1,"name":"plugin","pluginName":"Bar","data":42}''\<close>

definition pluginBadText :: string where
  \<open>pluginBadText = ''{"type":"invoke","id":1,"name":"plugin","pluginName":"Bad","data":42}''\<close>

definition pluginNilText :: string where
  \<open>pluginNilText = ''{"type":"invoke","id":1,"name":"plugin","pluginName":"Nil","data":42}''\<close>

definition pluginEmptyText :: string where
  \<open>pluginEmptyText = ''{"type":"invoke","id":1,"name":"plugin","pluginName":"","data":42}''\<close>

definition pluginFiveText :: string where
  \<open>pluginFiveText = ''{"type":"invoke","id":1,"name":"plugin","pluginName":5,"data":42}''\<close>

definition pingFrame :: json where
  "pingFrame = JObj [(''type'', JStr ''invoke''), (''id'', JNum 1), (''name'', JStr ''ping'')]"

definition pingText :: string where
  \<open>pingText = ''{"type":"invoke","id":1,"name":"ping"}''\<close>

definition responseFrame :: json where
  "responseFrame = JObj [(''type'', JStr ''response''), (''id'', JNum 1)]"

definition responseText :: string where
  \<open>responseText = ''{"type":"response","id":1}''\<close>

text \<open>
  \<^verbatim>\<open>JSON.parse\<close> on these texts, on \<^verbatim>\<open>null\<close> and on \<^verbatim>\<open>[1]\<close>; on any other text
  \<open>sampleParse\<close> reports a syntax error.
\<close>

definition sampleParse :: "string \<Rightarrow> string + json" where
  "sampleParse s =
     (case map_of
        [(''null'', JNull),
         (''[1]'', JArr [JNum 1]),
         (subscribeText, subscribeFrame),
         (pluginFooText, pluginFrame (JStr ''Foo'')),
         (pluginBarText, pluginFrame (JStr ''Bar'')),
         (pluginBadText, pluginFrame (JStr ''Bad'')),
         (pluginNilText, pluginFrame (JStr ''Nil'')),
         (pluginEmptyText, pluginFrame (JStr '''')),
         (pluginFiveText, pluginFrame (JNum 5)),
         (pingText, pingFrame),
         (responseText, responseFrame)] s of
        Some v \<Rightarrow> Inr v
      | None \<Rightarrow> Inl ''Unexpected token'')"

definition newClient :: "nat \<Rightarrow> WebSocketClient" where
  "newClient c = \<lparr>ident = c, wsType = None, registrationTimeout = NoTimer, readyState = 1\<rparr>"

definition fooHandler :: CustomWebSocketHandler where
  "fooHandler = \<lparr>pluginName = ''foo'', callback = (\<lambda>d. None)\<rparr>"

definition badHandler :: CustomWebSocketHandler where
  "badHandler = \<lparr>pluginName = ''bad'', callback = (\<lambda>d. Some (Thrown (Some ''boom'')))\<rparr>"


definition subscribedClient :: "nat \<Rightarrow> nat \<Rightarrow> WebSocketClient" where
  "subscribedClient c state =
     \<lparr>ident = c, wsType = Some ''events'', registrationTimeout = Cleared, readyState = state\<rparr>"

definition sampleManager :: WebSocketServerManager where
  "sampleManager =
     \<lparr>server = Some [onConnection 0 (newClient 1), subscribedClient 2 1, subscribedClient 3 2,
                     subscribedClient 4 1],
      customHandlers = [fooHandler, badHandler]\<rparr>"

subsection \<open>The sample parser\<close>

lemma sampleParse_frames:
  "sampleParse ''null'' = Inr JNull"
  "sampleParse ''[1]'' = Inr (JArr [JNum 1])"
  "sampleParse subscribeText = Inr subscribeFrame"
  "sampleParse pluginFooText = Inr (pluginFrame (JStr ''Foo''))"
  "sampleParse pluginBarText = Inr (pluginFrame (JStr ''Bar''))"
  "sampleParse pluginBadText = Inr (pluginFrame (JStr ''Bad''))"
  "sampleParse pluginNilText = Inr (pluginFrame (JStr ''Nil''))"
  "sampleParse pluginEmptyText = Inr (pluginFrame (JStr ''''))"
  "sampleParse pluginFiveText = Inr (pluginFrame (JNum 5))"
  "sampleParse pingText = Inr pingFrame"
  "sampleParse responseText = Inr responseFrame"
  "sampleParse ''{nope'' = Inl ''Unexpected token''"
  by (simp_all add: sampleParse_def subscribeText_def pluginFooText_def pluginBarText_def
      pluginBadText_def pluginNilText_def pluginEmptyText_def pluginFiveText_def pingText_def responseText_def)

section \<open>Properties\<close>

subsection \<open>The transport's close and the catch block\<close>


lemma wsClose_too_long:
  "readyState ws = 1 \<Longrightarrow> 123 < length r \<Longrightarrow>
     wsClose ws code (Some r) = [Uncaught (RangeError reason_too_long)]"
  by (simp add: wsClose_def)

lemma registrationTimedOut_effects:
  "registrationTimedOut ws = [Log Info, Close (ident ws) 4000 (Some ''Registration timed out'')]"
  by (simp add: registrationTimedOut_def wsClose_def)

lemma catchBlock_null_read:
  "catchBlock ws (TypeError null_read) = [Close (ident ws) 4006 (Some null_read)]"
  by (simp add: catchBlock_def wsClose_def null_read_def)

lemma catchBlock_not_a_function:
  "catchBlock ws (TypeError not_a_function) = [Close (ident ws) 4006 (Some not_a_function)]"
  by (simp add: catchBlock_def wsClose_def not_a_function_def)

lemma catchBlock_no_watchdog: "filter (watchdogClose c) (catchBlock ws e) = []"
  by (cases "message_of e") (simp_all add: catchBlock_def wsClose_def)

subsection \<open>What the message listener can and cannot do\<close>

text \<open>
  The listener never changes the identity of its connection, an exception leaves the
  connection's fields as they were, every frame sent inside the \<^verbatim>\<open>try\<close> block goes to
  the connection the message came from, nothing is closed inside the \<^verbatim>\<open>try\<close> block
  and no exception leaves it. A callback that throws a long message on an open connection
  makes the close of the catch block throw.
\<close>

lemma subscribeEvents_ident: "subscribeEvents ws i = (ws', effs, x) \<Longrightarrow> ident ws' = ident ws"
  by (auto simp: subscribeEvents_def Let_def split: if_splits)

lemma invokePlugin_same: "invokePlugin lc hs ws props = (ws', effs, x) \<Longrightarrow> ws' = ws"
  by (auto simp: invokePlugin_def split: option.splits if_splits sum.splits)

lemma dispatch_ident: "dispatch lc hs ws msg = (ws', effs, x) \<Longrightarrow> ident ws' = ident ws"
  by (auto simp: dispatch_def split: json.splits if_splits dest: subscribeEvents_ident invokePlugin_same)

lemma tryBlock_ident: "tryBlock parse lc hs ws data = (ws', effs, x) \<Longrightarrow> ident ws' = ident ws"
  by (auto simp: tryBlock_def split: sum.splits dest: dispatch_ident)

lemma onMessage_ident: "ident (fst (onMessage parse lc hs ws data)) = ident ws"
  by (auto simp: onMessage_def split: prod.splits option.splits dest: tryBlock_ident)






lemma subscribeEvents_no_close:
  "subscribeEvents ws i = (ws', effs, x) \<Longrightarrow> Close d k r \<notin> set effs"
  by (auto simp: subscribeEvents_def sendError_def sendResponse_def Let_def split: if_splits)


lemma invokePlugin_no_close:
  "invokePlugin lc hs ws props = (ws', effs, x) \<Longrightarrow> Close d k r \<notin> set effs"
  by (auto simp: invokePlugin_def sendError_def split: option.splits if_splits sum.splits)


lemma dispatch_no_close:
  "dispatch lc hs ws msg = (ws', effs, x) \<Longrightarrow> Close d k r \<notin> set effs"
  by (auto simp: dispatch_def sendError_def split: json.splits if_splits
      dest: subscribeEvents_no_close invokePlugin_no_close)


lemma tryBlock_no_close:
  "tryBlock parse lc hs ws data = (ws', effs, x) \<Longrightarrow> Close d k r \<notin> set effs"
  by (auto simp: tryBlock_def split: sum.splits dest: dispatch_no_close)



lemma catchBlock_too_long:
  "readyState ws = 1 \<Longrightarrow> 123 < length r \<Longrightarrow>
     catchBlock ws (Thrown (Some r)) = [Uncaught (RangeError reason_too_long)]"
  by (simp add: catchBlock_def wsClose_too_long)

text \<open>The field \<^verbatim>\<open>ws.type\<close> only ever goes from unset to \<^verbatim>\<open>"events"\<close>.\<close>

lemma subscribeEvents_wsType:
  "subscribeEvents ws i = (ws', effs, x) \<Longrightarrow>
     wsType ws' = wsType ws \<or> (wsType ws = None \<and> wsType ws' = Some ''events'')"
  by (auto simp: subscribeEvents_def Let_def split: if_splits)

lemma dispatch_wsType:
  "dispatch lc hs ws msg = (ws', effs, x) \<Longrightarrow>
     wsType ws' = wsType ws \<or> (wsType ws = None \<and> wsType ws' = Some ''events'')"
  by (auto simp: dispatch_def split: json.splits if_splits
      dest: subscribeEvents_wsType invokePlugin_same)

lemma tryBlock_wsType:
  "tryBlock parse lc hs ws data = (ws', effs, x) \<Longrightarrow>
     wsType ws' = wsType ws \<or> (wsType ws = None \<and> wsType ws' = Some ''events'')"
  by (auto simp: tryBlock_def split: sum.splits dest: dispatch_wsType)

lemma onMessage_wsType:
  "wsType (fst (onMessage parse lc hs ws data)) = wsType ws
     \<or> (wsType ws = None \<and> wsType (fst (onMessage parse lc hs ws data)) = Some ''events'')"
proof -
  obtain ws' effs x where t: "tryBlock parse lc hs ws data = (ws', effs, x)"
    by (cases "tryBlock parse lc hs ws data")
  have "fst (onMessage parse lc hs ws data) = ws'"
    using t by (simp add: onMessage_def split: option.splits)
  then show ?thesis using tryBlock_wsType [OF t] by simp
qed

lemma step_wsType:
  "wsType (fst (step parse lc hs ws ev)) = wsType ws
     \<or> (wsType ws = None \<and> wsType (fst (step parse lc hs ws ev)) = Some ''events'')"
proof (cases ev)
  case (MessageEvent data)
  then show ?thesis using onMessage_wsType [of parse lc hs ws data] by simp
next
  case (TimerEvent now)
  then show ?thesis by (simp add: timerTick_def split: timer.splits)
next
  case CloseEvent
  then show ?thesis by (simp add: transportClosed_def)
qed

lemma run_wsType:
  "wsType (fst (run parse lc hs ws evs)) = wsType ws
     \<or> (wsType ws = None \<and> wsType (fst (run parse lc hs ws evs)) = Some ''events'')"
proof (induction evs arbitrary: ws)
  case Nil
  then show ?case by simp
next
  case (Cons ev evs)
  obtain ws1 a where s: "step parse lc hs ws ev = (ws1, a)"
    by (cases "step parse lc hs ws ev")
  have r: "fst (run parse lc hs ws (ev # evs)) = fst (run parse lc hs ws1 evs)"
    using s by (simp add: split_beta)
  have 1: "wsType ws1 = wsType ws \<or> (wsType ws = None \<and> wsType ws1 = Some ''events'')"
    using step_wsType [of parse lc hs ws ev] s by simp
  show ?case using Cons.IH [of ws1] 1 unfolding r by auto
qed

subsection \<open>The registration timer along a run of events\<close>

text \<open>
  A message either leaves the connection as it is or subscribes it. The listener never
  closes with the code 4000. A timer that is not pending stays as it is and never closes
  the connection; a pending timer on a connection without a role stays pending, or is
  cleared by a subscription, or fires once.
\<close>

lemma subscribeEvents_cases:
  "subscribeEvents ws i = (ws', effs, x) \<Longrightarrow>
     ws' = ws \<or> (wsType ws = None
        \<and> ws' = ws\<lparr>registrationTimeout := clearTimeout (registrationTimeout ws), wsType := Some ''events''\<rparr>)"
  by (auto simp: subscribeEvents_def Let_def split: if_splits)

lemma dispatch_cases:
  "dispatch lc hs ws msg = (ws', effs, x) \<Longrightarrow>
     ws' = ws \<or> (wsType ws = None
        \<and> ws' = ws\<lparr>registrationTimeout := clearTimeout (registrationTimeout ws), wsType := Some ''events''\<rparr>)"
  by (auto simp: dispatch_def split: json.splits if_splits
      dest: subscribeEvents_cases invokePlugin_same)

lemma onMessage_cases:
  "fst (onMessage parse lc hs ws data) = ws
     \<or> (wsType ws = None 
        \<and> fst (onMessage parse lc hs ws data)
            = ws\<lparr>registrationTimeout := clearTimeout (registrationTimeout ws), wsType := Some ''events''\<rparr>)"
proof -
  obtain ws' effs x where t: "tryBlock parse lc hs ws data = (ws', effs, x)"
    by (cases "tryBlock parse lc hs ws data")
  have f: "fst (onMessage parse lc hs ws data) = ws'"
    using t by (simp add: onMessage_def split: option.splits)
  have "ws' = ws \<or> (wsType ws = None
        \<and> ws' = ws\<lparr>registrationTimeout := clearTimeout (registrationTimeout ws), wsType := Some ''events''\<rparr>)"
    using t by (auto simp: tryBlock_def split: sum.splits dest: dispatch_cases)
  then show ?thesis using f by simp
qed

lemma onMessage_no_watchdog: "filter (watchdogClose c) (snd (onMessage parse lc hs ws data)) = []"
proof -
  obtain ws' effs x where t: "tryBlock parse lc hs ws data = (ws', effs, x)"
    by (cases "tryBlock parse lc hs ws data")
  have "\<forall>e \<in> set effs. \<not> watchdogClose c e"
  proof
    fix e assume m: "e \<in> set effs"
    show "\<not> watchdogClose c e"
    proof (cases e)
      case (Close d k r)
      then show ?thesis using tryBlock_no_close [OF t, of d k r] m by simp
    qed simp_all
  qed
  then have "filter (watchdogClose c) effs = []" by (simp add: filter_empty_conv)
  then show ?thesis using t by (cases x) (simp_all add: onMessage_def catchBlock_no_watchdog)
qed

lemma clearTimeout_not_pending: "clearTimeout t \<noteq> Pending d"
  by (cases t) simp_all

lemma clearTimeout_idle: "\<forall>d. t \<noteq> Pending d \<Longrightarrow> clearTimeout t = t"
  by (cases t) simp_all

lemma step_not_pending:
  assumes "\<forall>d. registrationTimeout ws \<noteq> Pending d"
  shows "registrationTimeout (fst (step parse lc hs ws ev)) = registrationTimeout ws
       \<and> filter (watchdogClose c) (snd (step parse lc hs ws ev)) = []"
proof (cases ev)
  case (MessageEvent data)
  then show ?thesis
    using onMessage_cases [of parse lc hs ws data] onMessage_no_watchdog [of c parse lc hs ws data]
      clearTimeout_idle [OF assms]
    by auto
next
  case (TimerEvent now)
  then show ?thesis using assms by (simp add: timerTick_def split: timer.splits)
next
  case CloseEvent
  then show ?thesis by (simp add: transportClosed_def)
qed

lemma run_not_pending:
  "\<forall>d. registrationTimeout ws \<noteq> Pending d \<Longrightarrow>
     registrationTimeout (fst (run parse lc hs ws evs)) = registrationTimeout ws
       \<and> filter (watchdogClose c) (snd (run parse lc hs ws evs)) = []"
proof (induction evs arbitrary: ws)
  case Nil
  then show ?case by simp
next
  case (Cons ev evs)
  obtain ws1 a where s: "step parse lc hs ws ev = (ws1, a)"
    by (cases "step parse lc hs ws ev")
  obtain ws2 b where r: "run parse lc hs ws1 evs = (ws2, b)"
    by (cases "run parse lc hs ws1 evs")
  have 1: "registrationTimeout ws1 = registrationTimeout ws \<and> filter (watchdogClose c) a = []"
    using step_not_pending [OF Cons.prems, of parse lc hs ev c] s by simp
  then have "\<forall>d. registrationTimeout ws1 \<noteq> Pending d" using Cons.prems by simp
  then have 2: "registrationTimeout ws2 = registrationTimeout ws1 \<and> filter (watchdogClose c) b = []"
    using Cons.IH [of ws1] r by simp
  show ?case using s r 1 2 by simp
qed

lemma step_ident: "ident (fst (step parse lc hs ws ev)) = ident ws"
  by (cases ev) (simp_all add: onMessage_ident timerTick_def transportClosed_def split: timer.splits)

lemma run_ident: "ident (fst (run parse lc hs ws evs)) = ident ws"
proof (induction evs arbitrary: ws)
  case Nil
  then show ?case by simp
next
  case (Cons ev evs)
  have "fst (run parse lc hs ws (ev # evs)) = fst (run parse lc hs (fst (step parse lc hs ws ev)) evs)"
    by (simp add: split_beta)
  then show ?case using Cons.IH [of "fst (step parse lc hs ws ev)"] step_ident [of parse lc hs ws ev]
    by simp
qed

lemma step_pending:
  assumes p: "registrationTimeout ws = Pending d" and n: "wsType ws = None"
  shows "(registrationTimeout (fst (step parse lc hs ws ev)) = Pending d
            \<and> wsType (fst (step parse lc hs ws ev)) = None
            \<and> filter (watchdogClose (ident ws)) (snd (step parse lc hs ws ev)) = [])
       \<or> (registrationTimeout (fst (step parse lc hs ws ev)) = Cleared
            \<and> wsType (fst (step parse lc hs ws ev)) \<noteq> None
            \<and> filter (watchdogClose (ident ws)) (snd (step parse lc hs ws ev)) = [])
       \<or> (registrationTimeout (fst (step parse lc hs ws ev)) = Fired
            \<and> length (filter (watchdogClose (ident ws)) (snd (step parse lc hs ws ev))) = 1)"
proof (cases ev)
  case (MessageEvent data)
  then show ?thesis
    using onMessage_cases [of parse lc hs ws data]
      onMessage_no_watchdog [of "ident ws" parse lc hs ws data] p n
    by auto
next
  case (TimerEvent now)
  then show ?thesis using p n by (simp add: timerTick_def registrationTimedOut_effects)
next
  case CloseEvent
  then show ?thesis using p n by (simp add: transportClosed_def)
qed

lemma run_pending:
  assumes "registrationTimeout ws = Pending d" and "wsType ws = None"
  shows "(registrationTimeout (fst (run parse lc hs ws evs)) = Pending d
            \<and> wsType (fst (run parse lc hs ws evs)) = None
            \<and> filter (watchdogClose (ident ws)) (snd (run parse lc hs ws evs)) = [])
       \<or> (registrationTimeout (fst (run parse lc hs ws evs)) = Cleared
            \<and> wsType (fst (run parse lc hs ws evs)) \<noteq> None
            \<and> filter (watchdogClose (ident ws)) (snd (run parse lc hs ws evs)) = [])
       \<or> (registrationTimeout (fst (run parse lc hs ws evs)) = Fired
            \<and> length (filter (watchdogClose (ident ws)) (snd (run parse lc hs ws evs))) = 1)"
  using assms
proof (induction evs arbitrary: ws)
  case Nil
  then show ?case by simp
next
  case (Cons ev evs)
  obtain ws1 a where s: "step parse lc hs ws ev = (ws1, a)"
    by (cases "step parse lc hs ws ev")
  obtain ws2 b where r: "run parse lc hs ws1 evs = (ws2, b)"
    by (cases "run parse lc hs ws1 evs")
  have i: "ident ws1 = ident ws" using step_ident [of parse lc hs ws ev] s by simp
  have rr: "run parse lc hs ws (ev # evs) = (ws2, a @ b)" using s r by simp
  consider
      (pending) "registrationTimeout ws1 = Pending d" "wsType ws1 = None"
        "filter (watchdogClose (ident ws)) a = []"
    | (cleared) "registrationTimeout ws1 = Cleared" "wsType ws1 \<noteq> None"
        "filter (watchdogClose (ident ws)) a = []"
    | (fired) "registrationTimeout ws1 = Fired" "length (filter (watchdogClose (ident ws)) a) = 1"
    using step_pending [OF Cons.prems, of parse lc hs ev] s by auto
  then show ?case
  proof cases
    case pending
    then show ?thesis using Cons.IH [of ws1] r i rr by simp
  next
    case cleared
    have "registrationTimeout ws2 = Cleared \<and> filter (watchdogClose (ident ws)) b = []"
      using run_not_pending [of ws1 parse lc hs evs "ident ws"] cleared r by simp
    moreover have "wsType ws2 \<noteq> None"
      using run_wsType [of parse lc hs ws1 evs] cleared r by auto
    ultimately show ?thesis using cleared rr by simp
  next
    case fired
    have "registrationTimeout ws2 = Fired \<and> filter (watchdogClose (ident ws)) b = []"
      using run_not_pending [of ws1 parse lc hs evs "ident ws"] fired r by simp
    then show ?thesis using fired rr by simp
  qed
qed

lemma run_append:
  "run parse lc hs ws (xs @ ys)
     = (fst (run parse lc hs (fst (run parse lc hs ws xs)) ys),
        snd (run parse lc hs ws xs) @ snd (run parse lc hs (fst (run parse lc hs ws xs)) ys))"
  by (induction xs arbitrary: ws) (simp_all add: split_beta)

lemma step_watchdog:
  "filter (watchdogClose c) (snd (step parse lc hs ws ev)) = []
     \<or> (length (filter (watchdogClose c) (snd (step parse lc hs ws ev))) = 1
          \<and> registrationTimeout (fst (step parse lc hs ws ev)) = Fired)"
  by (cases ev)
    (simp_all add: onMessage_no_watchdog timerTick_def registrationTimedOut_effects split: timer.splits)

lemma run_watchdog_once:
  "length (filter (watchdogClose c) (snd (run parse lc hs ws evs))) \<le> 1"
proof (induction evs arbitrary: ws)
  case Nil
  then show ?case by simp
next
  case (Cons ev evs)
  let ?w1 = "fst (step parse lc hs ws ev)"
  have s: "snd (run parse lc hs ws (ev # evs))
      = snd (step parse lc hs ws ev) @ snd (run parse lc hs ?w1 evs)"
    by (simp add: split_beta)
  show ?case
  proof (cases "filter (watchdogClose c) (snd (step parse lc hs ws ev)) = []")
    case True
    then show ?thesis using Cons.IH [of ?w1] s by simp
  next
    case False
    then have one: "length (filter (watchdogClose c) (snd (step parse lc hs ws ev))) = 1"
      and fired: "registrationTimeout ?w1 = Fired"
      using step_watchdog [of c parse lc hs ws ev] by auto
    have "filter (watchdogClose c) (snd (run parse lc hs ?w1 evs)) = []"
      using run_not_pending [of ?w1 parse lc hs evs c] fired by simp
    then show ?thesis using one s by simp
  qed
qed

subsection \<open>The lookup of a plugin handler\<close>

text \<open>
  With a name that is a string, the lookup is the first entry whose name agrees with it
  up to case. With any other value, it finds nothing in an empty table and throws on a
  table with an entry.
\<close>

lemma find_handler_string:
  "find_handler lc hs (JStr s) = Inr (List.find (\<lambda>p. lc (pluginName p) = lc s) hs)"
  by (induction hs) simp_all

lemma find_handler_not_string:
  "\<forall>s. pn \<noteq> JStr s \<Longrightarrow>
     find_handler lc hs pn = (if hs = [] then Inr None else Inl (TypeError not_a_function))"
  by (cases hs; cases pn) simp_all

subsection \<open>The fan-out of a broadcast\<close>

text \<open>
  The loop over the tracked connections sends the frame to those that are subscribed
  and open, in the order of the set; the completion of the sends adds one error log
  line for every send that failed.
\<close>

lemma forEach_each:
  "forEach (each f) clients
     = map (\<lambda>c. Send (ident c) f) (filter (\<lambda>c. wsType c = Some ''events'' \<and> readyState c = 1) clients)"
  by (induction clients) (auto simp: each_def)

lemma sends_map_Send: "sends (map (\<lambda>c. Send (g c) f) cs) = map (\<lambda>c. (g c, f)) cs"
  by (induction cs) (simp_all add: sends_def)

lemma sends_append: "sends (xs @ ys) = sends xs @ sends ys"
  by (simp add: sends_def)

lemma sends_replicate_Log: "sends (replicate n (Log l)) = []"
  by (induction n) (simp_all add: sends_def)

lemma completion_Send:
  "forEach (completion outcome) (map (\<lambda>c. Send (g c) f) cs)
     = replicate (length (filter (\<lambda>c. outcome (g c) \<noteq> None) cs)) (Log Error)"
  by (induction cs) (auto simp: sendDone_def split: option.splits)

lemma triggerEvent_map:
  "triggerEvent M eventType payload
     = map (\<lambda>c. Send (ident c) (EventMessage eventType payload))
         (filter (\<lambda>c. wsType c = Some ''events'' \<and> readyState c = 1)
            (case server M of None \<Rightarrow> [] | Some clients \<Rightarrow> clients))"
  by (simp add: triggerEvent_def forEach_each split: option.splits)

subsection \<open>The registry\<close>

text \<open>
  \<^verbatim>\<open>findIndex\<close> is -1 exactly when no entry has the name up to case. Registering and
  unregistering keep the names of the table distinct up to case.
\<close>

lemma findIndex_range: "- 1 \<le> findIndex lc hs n \<and> findIndex lc hs n < int (length hs)"
  by (induction hs) (auto simp: Let_def)

lemma findIndex_none:
  "findIndex lc hs n = - 1 \<longleftrightarrow> (\<forall>p \<in> set hs. lc (pluginName p) \<noteq> lc n)"
proof (induction hs)
  case Nil
  then show ?case by simp
next
  case (Cons p ps)
  have "- 1 \<le> findIndex lc ps n" using findIndex_range [of lc ps n] by simp
  then show ?case using Cons.IH by (auto simp: Let_def)
qed

lemma distinct_map_remove_nth:
  "distinct (map f xs) \<Longrightarrow> distinct (map f (take i xs @ drop (i + 1) xs))"
proof (induction xs arbitrary: i)
  case Nil
  then show ?case by simp
next
  case (Cons x xs)
  show ?case
  proof (cases i)
    case 0
    then show ?thesis using Cons.prems by simp
  next
    case (Suc j)
    have "f x \<notin> f ` set (take j xs)" "f x \<notin> f ` set (drop (j + 1) xs)"
      using Cons.prems by (auto dest: in_set_takeD in_set_dropD)
    then show ?thesis using Cons.IH [of j] Cons.prems Suc by simp
  qed
qed

lemma register_distinct:
  "distinct (map (lc \<circ> pluginName) (customHandlers M)) \<Longrightarrow>
     distinct (map (lc \<circ> pluginName)
       (customHandlers (fst (registerCustomWebSocketListener lc M name cb))))"
  by (auto simp: registerCustomWebSocketListener_def findIndex_none)

lemma unregister_distinct:
  "distinct (map (lc \<circ> pluginName) (customHandlers M)) \<Longrightarrow>
     distinct (map (lc \<circ> pluginName)
       (customHandlers (fst (unregisterCustomWebSocketListener lc M name))))"
  using distinct_map_remove_nth [of "lc \<circ> pluginName" "customHandlers M"]
  by (simp add: unregisterCustomWebSocketListener_def Let_def del: map_append)

lemma apply_op_distinct:
  "distinct (map (lc \<circ> pluginName) (customHandlers M)) \<Longrightarrow>
     distinct (map (lc \<circ> pluginName) (customHandlers (apply_op lc M op)))"
  by (cases op) (simp_all add: register_distinct unregister_distinct)

lemma foldl_apply_op_distinct:
  "distinct (map (lc \<circ> pluginName) (customHandlers M)) \<Longrightarrow>
     distinct (map (lc \<circ> pluginName) (customHandlers (foldl (apply_op lc) M ops)))"
  by (induction ops arbitrary: M) (simp_all add: apply_op_distinct)

subsection \<open>Responses to invokes\<close>

text \<open>
  Claim C1 says that every invoke handled without an exception gets exactly one
  response, also when it names a registered plugin handler. With the handler
  \<^verbatim>\<open>"foo"\<close> registered, the invoke of the plugin \<^verbatim>\<open>"Foo"\<close> is handled without an
  exception, the callback is called, and no frame is sent.
\<close>

theorem plugin_call_sends_nothing_counterexample:
  "tryBlock sampleParse asciiLowerCase [fooHandler] (onConnection 0 (newClient 1)) pluginFooText
     = (onConnection 0 (newClient 1), [Call ''foo'' (Some (JNum 42))], None)
   \<and> sends (snd (onMessage sampleParse asciiLowerCase [fooHandler] (onConnection 0 (newClient 1))
                 pluginFooText)) = []"
  by (simp add: onMessage_def tryBlock_def sampleParse_frames pluginFrame_def dispatch_def
      invokePlugin_def onConnection_def newClient_def fooHandler_def asciiLowerCase_def
      asciiLower_def sends_def)

text \<open>
  Claim C1, amended. An invoke that is handled without an exception and names a
  registered plugin handler calls that handler's callback once, with the \<^verbatim>\<open>data\<close> of
  the invoke, and sends no frame. Every other invoke that is handled without an
  exception, whatever its name and its other properties, sends exactly one frame within
  the listener: a response on the connection the invoke came from, with the \<^verbatim>\<open>id\<close> of
  the invoke; and it calls no callback.
\<close>

theorem invoke_response:
  assumes p: "parse data = Inr (JObj props)"
    and t: "map_of props ''type'' = Some (JStr ''invoke'')"
    and ok: "tryBlock parse lc handlers ws data = (ws', effs, None)"
  shows "snd (onMessage parse lc handlers ws data) = Log Debug # effs
       \<and> (\<forall>s plugin.
             map_of props ''name'' = Some (JStr ''plugin'')
             \<and> map_of props ''pluginName'' = Some (JStr s) \<and> s \<noteq> ''''
             \<and> List.find (\<lambda>p. lc (pluginName p) = lc s) handlers = Some plugin
             \<longrightarrow> sends effs = [] \<and> calls effs = [(pluginName plugin, map_of props ''data'')])
       \<and> (\<not> (\<exists>s plugin.
             map_of props ''name'' = Some (JStr ''plugin'')
             \<and> map_of props ''pluginName'' = Some (JStr s) \<and> s \<noteq> ''''
             \<and> List.find (\<lambda>p. lc (pluginName p) = lc s) handlers = Some plugin)
             \<longrightarrow> (\<exists>name d. sends effs = [(ident ws, ResponseMessage (map_of props ''id'') name d)])
                 \<and> calls effs = [])"
proof -
  have d: "dispatch lc handlers ws (JObj props) = (ws', effs, None)"
    using p ok by (simp add: tryBlock_def)
  have a: "snd (onMessage parse lc handlers ws data) = Log Debug # effs"
    using ok by (simp add: onMessage_def)
  have b: "sends effs = [] \<and> calls effs = [(pluginName plugin, map_of props ''data'')]"
    if "map_of props ''name'' = Some (JStr ''plugin'')"
      and "map_of props ''pluginName'' = Some (JStr s)" and "s \<noteq> ''''"
      and "List.find (\<lambda>p. lc (pluginName p) = lc s) handlers = Some plugin" for s plugin
    using d t that
    by (auto simp: dispatch_def invokePlugin_def find_handler_string sends_def calls_def)
  have c: "(\<exists>name d. sends effs = [(ident ws, ResponseMessage (map_of props ''id'') name d)])
                 \<and> calls effs = []"
    if no: "\<not> (\<exists>s plugin.
             map_of props ''name'' = Some (JStr ''plugin'')
             \<and> map_of props ''pluginName'' = Some (JStr s) \<and> s \<noteq> ''''
             \<and> List.find (\<lambda>p. lc (pluginName p) = lc s) handlers = Some plugin)"
  proof (cases "map_of props ''name'' = Some (JStr ''subscribe-events'')")
    case True
    then show ?thesis using d t
      by (auto simp: dispatch_def subscribeEvents_def sendError_def sendResponse_def sends_def
          calls_def Let_def split: if_splits)
  next
    case ns: False
    show ?thesis
    proof (cases "map_of props ''name'' = Some (JStr ''plugin'')")
      case False
      then show ?thesis using d t ns
        by (auto simp: dispatch_def sendError_def sends_def calls_def)
    next
      case pl: True
      then have ip: "invokePlugin lc handlers ws props = (ws', effs, None)"
        using d t by (simp add: dispatch_def)
      show ?thesis
      proof (cases "map_of props ''pluginName''")
        case None
        then show ?thesis using ip
          by (auto simp: invokePlugin_def sendError_def sends_def calls_def)
      next
        case (Some pn)
        show ?thesis
        proof (cases "pn = JNull \<or> pn = JStr ''''")
          case True
          then show ?thesis using ip Some
            by (auto simp: invokePlugin_def sendError_def sends_def calls_def)
        next
          case ne: False
          show ?thesis
          proof (cases "\<exists>s. pn = JStr s")
            case True
            then obtain s where s: "pn = JStr s" by blast
            then have "List.find (\<lambda>p. lc (pluginName p) = lc s) handlers = None"
              using no pl Some ne
              by (cases "List.find (\<lambda>p. lc (pluginName p) = lc s) handlers") auto
            then show ?thesis using ip Some ne s
              by (auto simp: invokePlugin_def find_handler_string sendError_def sends_def calls_def)
          next
            case False
            then have "find_handler lc handlers pn
                = (if handlers = [] then Inr None else Inl (TypeError not_a_function))"
              using find_handler_not_string [of pn lc handlers] by blast
            then show ?thesis using ip Some ne
              by (auto simp: invokePlugin_def sendError_def sends_def calls_def split: if_splits)
          qed
        qed
      qed
    qed
  qed
  show ?thesis using a b c by blast
qed

theorem invoke_response_witness:
  "sends (snd (onMessage sampleParse asciiLowerCase [fooHandler] (onConnection 0 (newClient 1)) pingText))
     = [(1, ResponseMessage (Some (JNum 1)) ''error'' (JStr ''unknown command invocation''))]
   \<and> sends (snd (onMessage sampleParse asciiLowerCase [fooHandler] (onConnection 0 (newClient 1)) subscribeText))
     = [(1, ResponseMessage (Some (JNum 1)) ''success'' JNull)]
   \<and> sends (snd (onMessage sampleParse asciiLowerCase [fooHandler] (onConnection 0 (newClient 1)) pluginFooText))
     = []
   \<and> calls (snd (onMessage sampleParse asciiLowerCase [fooHandler] (onConnection 0 (newClient 1)) pluginFooText))
     = [(''foo'', Some (JNum 42))]"
proof -
  let ?ws = "onConnection 0 (newClient 1)"
  have p: "sampleParse pingText
      = Inr (JObj [(''type'', JStr ''invoke''), (''id'', JNum 1), (''name'', JStr ''ping'')])"
    "sampleParse subscribeText
      = Inr (JObj [(''type'', JStr ''invoke''), (''id'', JNum 1), (''name'', JStr ''subscribe-events'')])"
    "sampleParse pluginFooText
      = Inr (JObj [(''type'', JStr ''invoke''), (''id'', JNum 1), (''name'', JStr ''plugin''),
           (''pluginName'', JStr ''Foo''), (''data'', JNum 42)])"
    by (simp_all add: sampleParse_frames subscribeFrame_def pluginFrame_def pingFrame_def)
  have f: "asciiLowerCase ''Foo'' = ''foo''" "asciiLowerCase ''foo'' = ''foo''"
    by (simp_all add: asciiLowerCase_def asciiLower_def)
  have t1: "tryBlock sampleParse asciiLowerCase [fooHandler] ?ws pingText
      = (?ws, [Send 1 (ResponseMessage (Some (JNum 1)) ''error'' (JStr ''unknown command invocation''))], None)"
    by (simp add: tryBlock_def p dispatch_def sendError_def onConnection_def newClient_def)
  have t2: "tryBlock sampleParse asciiLowerCase [fooHandler] ?ws subscribeText
      = (\<lparr>ident = 1, wsType = Some ''events'', registrationTimeout = Cleared, readyState = 1\<rparr>,
         [Log Info, Send 1 (ResponseMessage (Some (JNum 1)) ''success'' JNull)], None)"
    by (simp add: tryBlock_def p dispatch_def subscribeEvents_def sendResponse_def onConnection_def
        newClient_def)
  have t3: "tryBlock sampleParse asciiLowerCase [fooHandler] ?ws pluginFooText
      = (?ws, [Call ''foo'' (Some (JNum 42))], None)"
    by (simp add: tryBlock_def p dispatch_def invokePlugin_def f fooHandler_def)
  note w1 = invoke_response [where parse = sampleParse and lc = asciiLowerCase
      and handlers = "[fooHandler]" and ws = ?ws, OF p(1) _ t1]
  note w2 = invoke_response [where parse = sampleParse and lc = asciiLowerCase
      and handlers = "[fooHandler]" and ws = ?ws, OF p(2) _ t2]
  note w3 = invoke_response [where parse = sampleParse and lc = asciiLowerCase
      and handlers = "[fooHandler]" and ws = ?ws, OF p(3) _ t3]
  show ?thesis
    using w1 w2 w3 [THEN conjunct2, THEN conjunct1, rule_format, of "''Foo''" fooHandler]
      w3 [THEN conjunct1] f
    by (simp add: sends_def calls_def fooHandler_def)
qed

subsection \<open>Subscription\<close>

text \<open>
  Claim C2. On every connection the role changes at most once, and only from unset to
  \<^verbatim>\<open>"events"\<close>. A \<^verbatim>\<open>subscribe-events\<close> invoke on a connection whose role is unset
  clears the registration timer (it is not pending afterwards), sets the role to
  \<^verbatim>\<open>"events"\<close> and sends the success response with the id of the invoke; on a connection
  whose role is set it sends the error response \<^verbatim>\<open>"socket already subscribed"\<close> and
  changes nothing. Whatever events follow (messages, timer ticks, the close), the role
  stays what it was or goes from unset to \<^verbatim>\<open>"events"\<close>; after a
  \<^verbatim>\<open>subscribe-events\<close> invoke it is set and never changes again, so every later
  \<^verbatim>\<open>subscribe-events\<close> invoke gets the error response.
\<close>

theorem role_transitions_once:
  assumes "parse data = Inr (JObj props)"
    and "map_of props ''type'' = Some (JStr ''invoke'')"
    and "map_of props ''name'' = Some (JStr ''subscribe-events'')"
  shows "(wsType ws = None \<longrightarrow>
            onMessage parse lc handlers ws data
              = (ws\<lparr>registrationTimeout := clearTimeout (registrationTimeout ws),
                     wsType := Some ''events''\<rparr>,
                 [Log Debug, Log Info,
                  Send (ident ws) (ResponseMessage (map_of props ''id'') ''success'' JNull)])
            \<and> (\<forall>due. clearTimeout (registrationTimeout ws) \<noteq> Pending due))
       \<and> (wsType ws \<noteq> None \<longrightarrow>
            onMessage parse lc handlers ws data
              = (ws, [Log Debug,
                      Send (ident ws) (ResponseMessage (map_of props ''id'') ''error''
                                         (JStr ''socket already subscribed''))]))
       \<and> (\<forall>evs. wsType (fst (run parse lc handlers ws evs)) = wsType ws
              \<or> (wsType ws = None \<and> wsType (fst (run parse lc handlers ws evs)) = Some ''events''))
       \<and> (\<forall>evs. wsType (fst (run parse lc handlers (fst (onMessage parse lc handlers ws data)) evs))
                   = wsType (fst (onMessage parse lc handlers ws data))
                \<and> wsType (fst (onMessage parse lc handlers ws data)) \<noteq> None)"
proof -
  have a: "wsType ws = None \<longrightarrow>
            onMessage parse lc handlers ws data
              = (ws\<lparr>registrationTimeout := clearTimeout (registrationTimeout ws),
                     wsType := Some ''events''\<rparr>,
                 [Log Debug, Log Info,
                  Send (ident ws) (ResponseMessage (map_of props ''id'') ''success'' JNull)])"
    using assms
    by (simp add: onMessage_def tryBlock_def dispatch_def subscribeEvents_def sendResponse_def Let_def)
  have a': "\<forall>due. clearTimeout (registrationTimeout ws) \<noteq> Pending due"
    by (cases "registrationTimeout ws") simp_all
  have b: "wsType ws \<noteq> None \<longrightarrow>
            onMessage parse lc handlers ws data
              = (ws, [Log Debug,
                      Send (ident ws) (ResponseMessage (map_of props ''id'') ''error''
                                         (JStr ''socket already subscribed''))])"
    using assms
    by (simp add: onMessage_def tryBlock_def dispatch_def subscribeEvents_def sendError_def)
  have c: "\<forall>evs. wsType (fst (run parse lc handlers ws evs)) = wsType ws
              \<or> (wsType ws = None \<and> wsType (fst (run parse lc handlers ws evs)) = Some ''events'')"
    using run_wsType by blast
  have d1: "wsType (fst (onMessage parse lc handlers ws data)) \<noteq> None"
    using a b by (cases "wsType ws") auto
  have d: "\<forall>evs. wsType (fst (run parse lc handlers (fst (onMessage parse lc handlers ws data)) evs))
                   = wsType (fst (onMessage parse lc handlers ws data))"
  proof
    fix evs
    show "wsType (fst (run parse lc handlers (fst (onMessage parse lc handlers ws data)) evs))
            = wsType (fst (onMessage parse lc handlers ws data))"
      using run_wsType [of parse lc handlers "fst (onMessage parse lc handlers ws data)" evs] d1
      by auto
  qed
  show ?thesis using a a' b c d d1 by blast
qed

theorem role_transitions_once_witness:
  "onMessage sampleParse asciiLowerCase [] (onConnection 0 (newClient 1)) subscribeText
     = (\<lparr>ident = 1, wsType = Some ''events'', registrationTimeout = Cleared, readyState = 1\<rparr>,
        [Log Debug, Log Info, Send 1 (ResponseMessage (Some (JNum 1)) ''success'' JNull)])
   \<and> onMessage sampleParse asciiLowerCase []
        \<lparr>ident = 1, wsType = Some ''events'', registrationTimeout = Cleared, readyState = 1\<rparr> subscribeText
     = (\<lparr>ident = 1, wsType = Some ''events'', registrationTimeout = Cleared, readyState = 1\<rparr>,
        [Log Debug, Send 1 (ResponseMessage (Some (JNum 1)) ''error'' (JStr ''socket already subscribed''))])"
  using role_transitions_once [of sampleParse subscribeText 
      "[(''type'', JStr ''invoke''), (''id'', JNum 1), (''name'', JStr ''subscribe-events'')]"
      "onConnection 0 (newClient 1)" asciiLowerCase "[]"]
    role_transitions_once [of sampleParse subscribeText 
      "[(''type'', JStr ''invoke''), (''id'', JNum 1), (''name'', JStr ''subscribe-events'')]"
      "\<lparr>ident = 1, wsType = Some ''events'', registrationTimeout = Cleared, readyState = 1\<rparr>" asciiLowerCase "[]"]
  by (simp add: sampleParse_frames subscribeFrame_def onConnection_def newClient_def)

subsection \<open>The registration watchdog\<close>

text \<open>
  Claim C3. The connection listener starts a timer that is due 5000 ms after the accept.
  As long as the connection has no role and the watchdog has not closed it, the timer
  does nothing before that time, and from that time on it fires: the connection is closed
  with the code 4000 and the reason \<^verbatim>\<open>"Registration timed out"\<close>. The timer is one-shot:
  whatever happens on the connection, the watchdog closes it at most once. A connection
  that subscribes while it has no role and the watchdog has not fired is never closed by
  the watchdog, whatever follows.
\<close>

theorem registration_watchdog:
  "registrationTimeout (onConnection now ws) = Pending (now + 5000)
   \<and> (\<forall>evs t.
         wsType (fst (run parse lc handlers (onConnection now ws) evs)) = None
         \<and> filter (watchdogClose (ident ws)) (snd (run parse lc handlers (onConnection now ws) evs)) = []
         \<longrightarrow> (t < now + 5000 \<longrightarrow>
                timerTick t (fst (run parse lc handlers (onConnection now ws) evs))
                  = (fst (run parse lc handlers (onConnection now ws) evs), []))
           \<and> (now + 5000 \<le> t \<longrightarrow>
                timerTick t (fst (run parse lc handlers (onConnection now ws) evs))
                  = ((fst (run parse lc handlers (onConnection now ws) evs))\<lparr>registrationTimeout := Fired\<rparr>,
                     [Log Info, Close (ident ws) 4000 (Some ''Registration timed out'')])))
   \<and> (\<forall>evs. length (filter (watchdogClose (ident ws))
                        (snd (run parse lc handlers (onConnection now ws) evs))) \<le> 1)
   \<and> (\<forall>evs1 data props evs2.
         parse data = Inr (JObj props)
         \<and> map_of props ''type'' = Some (JStr ''invoke'')
         \<and> map_of props ''name'' = Some (JStr ''subscribe-events'')
         \<and> wsType (fst (run parse lc handlers (onConnection now ws) evs1)) = None
         \<and> filter (watchdogClose (ident ws)) (snd (run parse lc handlers (onConnection now ws) evs1)) = []
         \<longrightarrow> filter (watchdogClose (ident ws))
               (snd (run parse lc handlers (onConnection now ws) (evs1 @ MessageEvent data # evs2))) = [])"
proof -
  let ?c = "onConnection now ws"
  let ?wd = "watchdogClose (ident ws)"
  have p: "registrationTimeout ?c = Pending (now + 5000)"
    by (simp add: onConnection_def)
  have i: "ident ?c = ident ws"
    by (simp add: onConnection_def)
  have t: "wsType ?c = wsType ws"
    by (simp add: onConnection_def)
  have phase: "registrationTimeout (fst (run parse lc handlers ?c evs)) = Pending (now + 5000)"
    if "wsType (fst (run parse lc handlers ?c evs)) = None"
      and "filter ?wd (snd (run parse lc handlers ?c evs)) = []" for evs
  proof -
    have "wsType ?c = None"
      using run_wsType [of parse lc handlers ?c evs] that(1) by auto
    then show ?thesis
      using run_pending [OF p, of parse lc handlers evs] that i by auto
  qed
  have fire: "(t < now + 5000 \<longrightarrow>
                timerTick t (fst (run parse lc handlers ?c evs))
                  = (fst (run parse lc handlers ?c evs), []))
           \<and> (now + 5000 \<le> t \<longrightarrow>
                timerTick t (fst (run parse lc handlers ?c evs))
                  = ((fst (run parse lc handlers ?c evs))\<lparr>registrationTimeout := Fired\<rparr>,
                     [Log Info, Close (ident ws) 4000 (Some ''Registration timed out'')]))"
    if "wsType (fst (run parse lc handlers ?c evs)) = None"
      and "filter ?wd (snd (run parse lc handlers ?c evs)) = []" for evs t
    using phase [OF that] run_ident [of parse lc handlers ?c evs] i
    by (simp add: timerTick_def registrationTimedOut_effects)
  have once: "length (filter ?wd (snd (run parse lc handlers ?c evs))) \<le> 1" for evs
    by (rule run_watchdog_once)
  have sub: "filter ?wd (snd (run parse lc handlers ?c (evs1 @ MessageEvent data # evs2))) = []"
    if pd: "parse data = Inr (JObj props)"
      and ty: "map_of props ''type'' = Some (JStr ''invoke'')"
      and nm: "map_of props ''name'' = Some (JStr ''subscribe-events'')"
      and un: "wsType (fst (run parse lc handlers ?c evs1)) = None"
      and nf: "filter ?wd (snd (run parse lc handlers ?c evs1)) = []"
    for evs1 data props evs2
  proof -
    let ?m = "fst (run parse lc handlers ?c evs1)"
    let ?s = "fst (onMessage parse lc handlers ?m data)"
    have "onMessage parse lc handlers ?m data
        = (?m\<lparr>registrationTimeout := clearTimeout (registrationTimeout ?m), wsType := Some ''events''\<rparr>,
           [Log Debug, Log Info,
            Send (ident ?m) (ResponseMessage (map_of props ''id'') ''success'' JNull)])"
      using pd ty nm un
      by (simp add: onMessage_def tryBlock_def dispatch_def subscribeEvents_def sendResponse_def Let_def)
    then have np: "\<forall>d. registrationTimeout ?s \<noteq> Pending d"
      by (simp add: clearTimeout_not_pending)
    have rest: "filter ?wd (snd (run parse lc handlers ?s evs2)) = []"
      using run_not_pending [OF np, of parse lc handlers evs2 "ident ws"] by simp
    have "snd (run parse lc handlers ?c (evs1 @ MessageEvent data # evs2))
        = snd (run parse lc handlers ?c evs1) @ snd (onMessage parse lc handlers ?m data)
            @ snd (run parse lc handlers ?s evs2)"
      by (simp add: run_append split_beta)
    then show ?thesis using nf rest onMessage_no_watchdog [of "ident ws" parse lc handlers ?m data]
      by simp
  qed
  show ?thesis using p fire once sub by blast
qed

theorem registration_watchdog_witness:
  "registrationTimeout (onConnection 0 (newClient 1)) = Pending 5000
   \<and> timerTick 4999 (onConnection 0 (newClient 1)) = (onConnection 0 (newClient 1), [])
   \<and> timerTick 5000 (onConnection 0 (newClient 1))
       = (\<lparr>ident = 1, wsType = None, registrationTimeout = Fired, readyState = 1\<rparr>,
          [Log Info, Close 1 4000 (Some ''Registration timed out'')])
   \<and> filter (watchdogClose 1)
        (snd (run sampleParse asciiLowerCase [] (onConnection 0 (newClient 1))
               [MessageEvent subscribeText, TimerEvent 5000])) = []"
proof -
  note w = registration_watchdog [of 0 "newClient 1" sampleParse asciiLowerCase "[]"]
  have a: "registrationTimeout (onConnection 0 (newClient 1)) = Pending 5000"
    using w by simp
  have b: "timerTick 4999 (onConnection 0 (newClient 1)) = (onConnection 0 (newClient 1), [])"
    using w [THEN conjunct2, THEN conjunct1, rule_format, of "[]" 4999]
    by (simp add: onConnection_def newClient_def)
  have c: "timerTick 5000 (onConnection 0 (newClient 1))
       = (\<lparr>ident = 1, wsType = None, registrationTimeout = Fired, readyState = 1\<rparr>,
          [Log Info, Close 1 4000 (Some ''Registration timed out'')])"
    using w [THEN conjunct2, THEN conjunct1, rule_format, of "[]" 5000]
    by (simp add: onConnection_def newClient_def)
  have d: "filter (watchdogClose 1)
        (snd (run sampleParse asciiLowerCase [] (onConnection 0 (newClient 1))
               [MessageEvent subscribeText, TimerEvent 5000])) = []"
    using w [THEN conjunct2, THEN conjunct2, THEN conjunct2, rule_format,
        of subscribeText "[(''type'', JStr ''invoke''), (''id'', JNum 1), (''name'', JStr ''subscribe-events'')]"
           "[]" "[TimerEvent 5000]"]
    by (simp add: onConnection_def newClient_def sampleParse_frames subscribeFrame_def)
  show ?thesis using a b c d by blast
qed

subsection \<open>What cancels the registration timer\<close>

text \<open>
  Claim C4 says that the registration timer is cancelled on a successful subscription
  and on the close of the connection, so that it never fires after the connection is
  gone. The manager has no listener for the close event: a connection accepted at time 0
  and closed before it subscribed still has its timer pending, and at time 5000 the
  timer fires and calls \<^verbatim>\<open>close(4000, "Registration timed out")\<close> on it.
\<close>

theorem timer_survives_close_counterexample:
  "registrationTimeout (fst (run sampleParse asciiLowerCase [] (onConnection 0 (newClient 1)) [CloseEvent]))
     = Pending 5000
   \<and> snd (run sampleParse asciiLowerCase [] (onConnection 0 (newClient 1)) [CloseEvent, TimerEvent 5000])
     = [Log Info, Close 1 4000 (Some ''Registration timed out'')]"
  by (simp add: onConnection_def newClient_def transportClosed_def timerTick_def registrationTimedOut_effects)

text \<open>
  Claim C4, amended. A pending registration timer is cleared by exactly one kind of
  event: a \<^verbatim>\<open>subscribe-events\<close> invoke on a connection without a role. The close of
  the connection leaves the timer pending, and once it is due it fires on the closed
  connection.
\<close>

theorem timer_cleared_only_by_subscription:
  assumes "registrationTimeout ws = Pending due"
  shows "(registrationTimeout (fst (step parse lc handlers ws ev)) = Cleared
            \<longleftrightarrow> (\<exists>data props. ev = MessageEvent data \<and> parse data = Inr (JObj props)
                   \<and> map_of props ''type'' = Some (JStr ''invoke'')
                   \<and> map_of props ''name'' = Some (JStr ''subscribe-events'')
                   \<and> wsType ws = None))
       \<and> registrationTimeout (fst (step parse lc handlers ws CloseEvent)) = Pending due
       \<and> (\<forall>t. due \<le> t \<longrightarrow>
             snd (step parse lc handlers (fst (step parse lc handlers ws CloseEvent)) (TimerEvent t))
               = [Log Info, Close (ident ws) 4000 (Some ''Registration timed out'')])"
proof -
  have msg: "registrationTimeout (fst (onMessage parse lc handlers ws data)) = Cleared
            \<longleftrightarrow> (\<exists>props. parse data = Inr (JObj props)
                   \<and> map_of props ''type'' = Some (JStr ''invoke'')
                   \<and> map_of props ''name'' = Some (JStr ''subscribe-events'')
                   \<and> wsType ws = None)" for data
  proof (cases "parse data")
    case (Inl m)
    then show ?thesis using assms by (simp add: onMessage_def tryBlock_def)
  next
    case (Inr v)
    show ?thesis
    proof (cases v)
      case (JObj props)
      obtain ws' effs x where ip: "invokePlugin lc handlers ws props = (ws', effs, x)"
        by (cases "invokePlugin lc handlers ws props")
      have "ws' = ws" using ip by (rule invokePlugin_same)
      then show ?thesis using Inr JObj assms ip
        by (cases x)
          (auto simp: onMessage_def tryBlock_def dispatch_def subscribeEvents_def Let_def)
    qed (use Inr assms in \<open>simp_all add: onMessage_def tryBlock_def dispatch_def\<close>)
  qed
  have a: "registrationTimeout (fst (step parse lc handlers ws ev)) = Cleared
            \<longleftrightarrow> (\<exists>data props. ev = MessageEvent data \<and> parse data = Inr (JObj props)
                   \<and> map_of props ''type'' = Some (JStr ''invoke'')
                   \<and> map_of props ''name'' = Some (JStr ''subscribe-events'')
                   \<and> wsType ws = None)"
  proof (cases ev)
    case (MessageEvent data)
    then show ?thesis using msg [of data] by simp
  next
    case (TimerEvent now)
    then show ?thesis using assms by (simp add: timerTick_def)
  next
    case CloseEvent
    then show ?thesis using assms by (simp add: transportClosed_def)
  qed
  have b: "registrationTimeout (fst (step parse lc handlers ws CloseEvent)) = Pending due"
    using assms by (simp add: transportClosed_def)
  have c: "\<forall>t. due \<le> t \<longrightarrow>
             snd (step parse lc handlers (fst (step parse lc handlers ws CloseEvent)) (TimerEvent t))
               = [Log Info, Close (ident ws) 4000 (Some ''Registration timed out'')]"
    using assms by (simp add: transportClosed_def timerTick_def registrationTimedOut_effects)
  show ?thesis using a b c by blast
qed

theorem timer_cleared_only_by_subscription_witness:
  "registrationTimeout (fst (step sampleParse asciiLowerCase [] (onConnection 0 (newClient 1))
       (MessageEvent subscribeText))) = Cleared
   \<and> registrationTimeout (fst (step sampleParse asciiLowerCase [] (onConnection 0 (newClient 1))
       (MessageEvent pingText))) \<noteq> Cleared
   \<and> registrationTimeout (fst (step sampleParse asciiLowerCase [] (onConnection 0 (newClient 1))
       CloseEvent)) = Pending 5000
   \<and> snd (step sampleParse asciiLowerCase []
            (fst (step sampleParse asciiLowerCase [] (onConnection 0 (newClient 1)) CloseEvent))
            (TimerEvent 7000))
       = [Log Info, Close 1 4000 (Some ''Registration timed out'')]"
proof -
  have p: "registrationTimeout (onConnection 0 (newClient 1)) = Pending 5000"
    by (simp add: onConnection_def)
  have s: "sampleParse subscribeText = Inr (JObj [(''type'', JStr ''invoke''), (''id'', JNum 1),
      (''name'', JStr ''subscribe-events'')])"
    by (simp add: sampleParse_frames subscribeFrame_def)
  have g: "sampleParse pingText = Inr (JObj [(''type'', JStr ''invoke''), (''id'', JNum 1),
      (''name'', JStr ''ping'')])"
    by (simp add: sampleParse_frames pingFrame_def)
  show ?thesis
    using timer_cleared_only_by_subscription [OF p, of sampleParse asciiLowerCase "[]" "MessageEvent subscribeText"]
      timer_cleared_only_by_subscription [OF p, of sampleParse asciiLowerCase "[]" "MessageEvent pingText"]
      s g
    by (simp add: onConnection_def newClient_def)
qed

subsection \<open>Plugin invokes\<close>

text \<open>
  Claim C5 says that every plugin invoke whose \<^verbatim>\<open>pluginName\<close> is neither missing nor
  empty is looked up, and answered with \<^verbatim>\<open>"Unknown plugin name specified"\<close> when no
  handler is found. With a handler registered and the \<^verbatim>\<open>pluginName\<close> 5, the lookup
  throws (\<^verbatim>\<open>pluginName.toLowerCase\<close> is not a function): no response is sent and the
  connection is closed with the code 4006.
\<close>

theorem plugin_not_string_counterexample:
  "onMessage sampleParse asciiLowerCase [fooHandler] (onConnection 0 (newClient 1)) pluginFiveText
     = (onConnection 0 (newClient 1), [Log Debug, Close 1 4006 (Some not_a_function)])"
  by (simp add: onMessage_def tryBlock_def sampleParse_frames pluginFrame_def dispatch_def
      invokePlugin_def catchBlock_not_a_function onConnection_def newClient_def)

text \<open>
  Claim C5, amended. For a plugin invoke whose \<^verbatim>\<open>pluginName\<close> is missing, \<^verbatim>\<open>null\<close>
  or a string: when it is missing, \<^verbatim>\<open>null\<close> or empty, the error response
  \<^verbatim>\<open>"Must specify pluginName"\<close> is sent. Otherwise the first handler whose name agrees
  with it up to case is looked up. When there is one, its callback is called once with
  the \<^verbatim>\<open>data\<close> of the invoke and no response is sent (when the callback throws, the
  catch block runs on what it threw); when there is none, the error response
  \<^verbatim>\<open>"Unknown plugin name specified"\<close> is sent.
\<close>

theorem plugin_invoke:
  assumes "parse data = Inr (JObj props)"
    and "map_of props ''type'' = Some (JStr ''invoke'')"
    and "map_of props ''name'' = Some (JStr ''plugin'')"
  shows "(map_of props ''pluginName'' = None \<or> map_of props ''pluginName'' = Some JNull
            \<or> map_of props ''pluginName'' = Some (JStr '''') \<longrightarrow>
          onMessage parse lc handlers ws data
            = (ws, [Log Debug,
                    Send (ident ws) (ResponseMessage (map_of props ''id'') ''error''
                                       (JStr ''Must specify pluginName''))]))
       \<and> (\<forall>s. map_of props ''pluginName'' = Some (JStr s) \<and> s \<noteq> '''' \<longrightarrow>
            (case List.find (\<lambda>p. lc (pluginName p) = lc s) handlers of
               Some p \<Rightarrow>
                 onMessage parse lc handlers ws data
                   = (ws, [Log Debug, Call (pluginName p) (map_of props ''data'')]
                          @ (case callback p (map_of props ''data'') of
                               None \<Rightarrow> []
                             | Some e \<Rightarrow> catchBlock ws e))
             | None \<Rightarrow>
                 onMessage parse lc handlers ws data
                   = (ws, [Log Debug,
                           Send (ident ws) (ResponseMessage (map_of props ''id'') ''error''
                                              (JStr ''Unknown plugin name specified''))])))"
proof -
  have d: "tryBlock parse lc handlers ws data = invokePlugin lc handlers ws props"
    using assms by (simp add: tryBlock_def dispatch_def)
  have a: "map_of props ''pluginName'' = None \<or> map_of props ''pluginName'' = Some JNull
            \<or> map_of props ''pluginName'' = Some (JStr '''') \<longrightarrow>
          onMessage parse lc handlers ws data
            = (ws, [Log Debug,
                    Send (ident ws) (ResponseMessage (map_of props ''id'') ''error''
                                       (JStr ''Must specify pluginName''))])"
    by (auto simp: onMessage_def d invokePlugin_def sendError_def)
  have b: "case List.find (\<lambda>p. lc (pluginName p) = lc s) handlers of
               Some p \<Rightarrow>
                 onMessage parse lc handlers ws data
                   = (ws, [Log Debug, Call (pluginName p) (map_of props ''data'')]
                          @ (case callback p (map_of props ''data'') of
                               None \<Rightarrow> []
                             | Some e \<Rightarrow> catchBlock ws e))
             | None \<Rightarrow>
                 onMessage parse lc handlers ws data
                   = (ws, [Log Debug,
                           Send (ident ws) (ResponseMessage (map_of props ''id'') ''error''
                                              (JStr ''Unknown plugin name specified''))])"
    if "map_of props ''pluginName'' = Some (JStr s)" and "s \<noteq> ''''" for s
    using that
    by (simp add: onMessage_def d invokePlugin_def sendError_def find_handler_string
        split: option.splits)
  show ?thesis using a b by blast
qed

theorem plugin_invoke_witness:
  "onMessage sampleParse asciiLowerCase [fooHandler, badHandler] (onConnection 0 (newClient 1)) pluginFooText
     = (onConnection 0 (newClient 1), [Log Debug, Call ''foo'' (Some (JNum 42))])
   \<and> onMessage sampleParse asciiLowerCase [fooHandler, badHandler] (onConnection 0 (newClient 1)) pluginBarText
     = (onConnection 0 (newClient 1),
        [Log Debug, Send 1 (ResponseMessage (Some (JNum 1)) ''error'' (JStr ''Unknown plugin name specified''))])
   \<and> onMessage sampleParse asciiLowerCase [fooHandler, badHandler] (onConnection 0 (newClient 1)) pluginEmptyText
     = (onConnection 0 (newClient 1),
        [Log Debug, Send 1 (ResponseMessage (Some (JNum 1)) ''error'' (JStr ''Must specify pluginName''))])"
proof -
  have p: "sampleParse pluginFooText
      = Inr (JObj [(''type'', JStr ''invoke''), (''id'', JNum 1), (''name'', JStr ''plugin''),
           (''pluginName'', JStr ''Foo''), (''data'', JNum 42)])"
    "sampleParse pluginBarText
      = Inr (JObj [(''type'', JStr ''invoke''), (''id'', JNum 1), (''name'', JStr ''plugin''),
           (''pluginName'', JStr ''Bar''), (''data'', JNum 42)])"
    "sampleParse pluginEmptyText
      = Inr (JObj [(''type'', JStr ''invoke''), (''id'', JNum 1), (''name'', JStr ''plugin''),
           (''pluginName'', JStr ''''), (''data'', JNum 42)])"
    by (simp_all add: sampleParse_frames pluginFrame_def)
  have f: "asciiLowerCase ''Foo'' = ''foo''" "asciiLowerCase ''foo'' = ''foo''"
    "asciiLowerCase ''Bar'' = ''bar''" "asciiLowerCase ''bad'' = ''bad''"
    by (simp_all add: asciiLowerCase_def asciiLower_def)
  show ?thesis
    using plugin_invoke [where parse = sampleParse and data = pluginFooText
          and lc = asciiLowerCase and handlers = "[fooHandler, badHandler]"
          and ws = "onConnection 0 (newClient 1)", OF p(1)]
      plugin_invoke [where parse = sampleParse and data = pluginBarText
          and lc = asciiLowerCase and handlers = "[fooHandler, badHandler]"
          and ws = "onConnection 0 (newClient 1)", OF p(2)]
      plugin_invoke [where parse = sampleParse and data = pluginEmptyText
          and lc = asciiLowerCase and handlers = "[fooHandler, badHandler]"
          and ws = "onConnection 0 (newClient 1)", OF p(3)]
      f
    by (simp add: fooHandler_def badHandler_def onConnection_def newClient_def)
qed

subsection \<open>Fatal errors\<close>




subsection \<open>Broadcast\<close>

text \<open>
  Claim C7. For every event name and payload, \<^verbatim>\<open>triggerEvent\<close> does nothing when the
  server has not been created. Otherwise it builds the event frame once and sends that
  frame to exactly the tracked connections whose role is \<^verbatim>\<open>"events"\<close> and whose
  \<^verbatim>\<open>readyState\<close> is 1 (OPEN), once each; every other connection is skipped, and nothing
  else is done.
\<close>

theorem triggerEvent_recipients:
  "(server M = None \<longrightarrow> triggerEvent M eventType payload = [])
   \<and> (\<forall>clients. server M = Some clients \<longrightarrow>
         triggerEvent M eventType payload
           = map (\<lambda>c. Send (ident c) (EventMessage eventType payload))
               (filter (\<lambda>c. wsType c = Some ''events'' \<and> readyState c = 1) clients))"
  by (simp add: triggerEvent_def forEach_each)

theorem triggerEvent_recipients_witness:
  "triggerEvent manager ''test'' (Some (JNum 7)) = []
   \<and> triggerEvent sampleManager ''test'' (Some (JNum 7))
       = [Send 2 (EventMessage ''test'' (Some (JNum 7))), Send 4 (EventMessage ''test'' (Some (JNum 7)))]"
proof -
  have a: "server manager = None" by (simp add: manager_def)
  have b: "server sampleManager = Some [onConnection 0 (newClient 1), subscribedClient 2 1,
      subscribedClient 3 2, subscribedClient 4 1]"
    by (simp add: sampleManager_def)
  show ?thesis
    using triggerEvent_recipients [of manager "''test''" "Some (JNum 7)"]
      triggerEvent_recipients [of sampleManager "''test''" "Some (JNum 7)"] a b
    by (simp add: onConnection_def newClient_def subscribedClient_def)
qed

text \<open>
  Claim C8. Whatever sends of a broadcast fail, the broadcast sends the frame to every
  eligible connection, exactly as when no send fails. A failed send is reported to the
  callback given to \<^verbatim>\<open>client.send\<close>, which adds one error log line and nothing else:
  no frame for any client and no close.
\<close>

theorem broadcast_failure_is_local:
  "triggerEventSettled outcome M eventType payload
     = triggerEvent M eventType payload
         @ replicate (length (filter (\<lambda>(c, f). outcome c \<noteq> None)
                                (sends (triggerEvent M eventType payload)))) (Log Error)
   \<and> sends (triggerEventSettled outcome M eventType payload)
       = sends (triggerEventSettled (\<lambda>c. None) M eventType payload)
   \<and> (\<forall>c code reason. Close c code reason \<notin> set (triggerEventSettled outcome M eventType payload))"
proof -
  let ?cs = "filter (\<lambda>c. wsType c = Some ''events'' \<and> readyState c = 1)
            (case server M of None \<Rightarrow> [] | Some clients \<Rightarrow> clients)"
  let ?f = "EventMessage eventType payload"
  have t: "triggerEvent M eventType payload = map (\<lambda>c. Send (ident c) ?f) ?cs"
    by (rule triggerEvent_map)
  have n: "length (filter (\<lambda>(c, f). outcome c \<noteq> None) (sends (triggerEvent M eventType payload)))
      = length (filter (\<lambda>c. outcome (ident c) \<noteq> None) ?cs)" for outcome
    unfolding t sends_map_Send by (simp add: filter_map comp_def)  
  have b: "triggerEventSettled outcome M eventType payload
      = triggerEvent M eventType payload
         @ replicate (length (filter (\<lambda>(c, f). outcome c \<noteq> None)
                                (sends (triggerEvent M eventType payload)))) (Log Error)" for outcome
    unfolding n unfolding triggerEventSettled_def Let_def t completion_Send by simp
  have s: "sends (triggerEventSettled outcome M eventType payload) = sends (triggerEvent M eventType payload)"
    for outcome
    by (subst b) (simp add: sends_append sends_replicate_Log)
  have c: "Close c code reason \<notin> set (triggerEventSettled outcome M eventType payload)" for c code reason
    by (subst b) (auto simp: t)
  show ?thesis using b s c by metis
qed

theorem broadcast_failure_is_local_witness:
  "triggerEventSettled (\<lambda>c. if c = 2 then Some ''EPIPE'' else None) sampleManager ''test'' None
     = [Send 2 (EventMessage ''test'' None), Send 4 (EventMessage ''test'' None), Log Error]"
  using broadcast_failure_is_local [of "\<lambda>c. if c = 2 then Some ''EPIPE'' else None" sampleManager
      "''test''" None, THEN conjunct1]
  by (simp add: triggerEvent_def sampleManager_def each_def onConnection_def newClient_def
      subscribedClient_def sends_def Let_def)

subsection \<open>Registering a custom listener\<close>

text \<open>
  Claim C9. \<^verbatim>\<open>registerCustomWebSocketListener\<close> returns false and leaves the table as it
  is when an entry has the given name up to case; otherwise it appends the entry and
  returns true. It keeps the names of the table distinct up to case, and so does every
  run of registrations and unregistrations from the empty table: there is at most one
  entry per case-normalised name at any time.
\<close>

theorem register_rejects_duplicates:
  "((\<exists>p \<in> set (customHandlers M). lc (pluginName p) = lc name) \<longrightarrow>
       registerCustomWebSocketListener lc M name cb = (M, [Log Error], False))
   \<and> ((\<forall>p \<in> set (customHandlers M). lc (pluginName p) \<noteq> lc name) \<longrightarrow>
       registerCustomWebSocketListener lc M name cb
         = (M\<lparr>customHandlers := customHandlers M @ [\<lparr>pluginName = name, callback = cb\<rparr>]\<rparr>,
            [Log Info], True))
   \<and> (distinct (map (lc \<circ> pluginName) (customHandlers M)) \<longrightarrow>
       distinct (map (lc \<circ> pluginName)
         (customHandlers (fst (registerCustomWebSocketListener lc M name cb)))))
   \<and> (\<forall>ops. distinct (map (lc \<circ> pluginName) (customHandlers (foldl (apply_op lc) manager ops))))"
proof -
  have a: "(\<exists>p \<in> set (customHandlers M). lc (pluginName p) = lc name) \<longrightarrow>
       registerCustomWebSocketListener lc M name cb = (M, [Log Error], False)"
    using findIndex_none [of lc "customHandlers M" name]
    by (auto simp: registerCustomWebSocketListener_def)
  have b: "(\<forall>p \<in> set (customHandlers M). lc (pluginName p) \<noteq> lc name) \<longrightarrow>
       registerCustomWebSocketListener lc M name cb
         = (M\<lparr>customHandlers := customHandlers M @ [\<lparr>pluginName = name, callback = cb\<rparr>]\<rparr>,
            [Log Info], True)"
    using findIndex_none [of lc "customHandlers M" name]
    by (auto simp: registerCustomWebSocketListener_def)
  have c: "distinct (map (lc \<circ> pluginName) (customHandlers M)) \<longrightarrow>
       distinct (map (lc \<circ> pluginName)
         (customHandlers (fst (registerCustomWebSocketListener lc M name cb))))"
    using register_distinct by blast
  have d: "\<forall>ops. distinct (map (lc \<circ> pluginName) (customHandlers (foldl (apply_op lc) manager ops)))"
    using foldl_apply_op_distinct [of lc manager] by (simp add: manager_def)
  show ?thesis using a b c d by blast
qed

theorem register_rejects_duplicates_witness:
  "registerCustomWebSocketListener asciiLowerCase manager ''Foo'' (\<lambda>d. None)
     = (\<lparr>server = None, customHandlers = [\<lparr>pluginName = ''Foo'', callback = (\<lambda>d. None)\<rparr>]\<rparr>,
        [Log Info], True)
   \<and> registerCustomWebSocketListener asciiLowerCase
        \<lparr>server = None, customHandlers = [\<lparr>pluginName = ''Foo'', callback = (\<lambda>d. None)\<rparr>]\<rparr>
        ''foo'' (\<lambda>d. None)
     = (\<lparr>server = None, customHandlers = [\<lparr>pluginName = ''Foo'', callback = (\<lambda>d. None)\<rparr>]\<rparr>,
        [Log Error], False)"
proof -
  have f: "asciiLowerCase ''Foo'' = ''foo''" "asciiLowerCase ''foo'' = ''foo''"
    by (simp_all add: asciiLowerCase_def asciiLower_def)
  show ?thesis
    using register_rejects_duplicates [of manager asciiLowerCase "''Foo''" "\<lambda>d. None"]
      register_rejects_duplicates [of
        "\<lparr>server = None, customHandlers = [\<lparr>pluginName = ''Foo'', callback = (\<lambda>d. None)\<rparr>]\<rparr>"
        asciiLowerCase "''foo''" "\<lambda>d. None"] f
    by (simp add: manager_def)
qed

subsection \<open>Frames that are not invokes\<close>

text \<open>
  Claim C10. A frame that parses to a JSON value other than \<^verbatim>\<open>null\<close> and other than an
  object whose \<^verbatim>\<open>type\<close> is \<^verbatim>\<open>"invoke"\<close> (a number, a string, a boolean, an array, an
  object of another type) makes the listener write its debug log line and nothing else:
  no frame is sent, nothing is closed, the connection is unchanged. A frame that parses
  to \<^verbatim>\<open>null\<close> makes the read of \<^verbatim>\<open>message.type\<close> throw, and the connection is closed
  with code 4006 and the message of that type error.
\<close>

theorem non_invoke_frame:
  assumes "parse data = Inr msg"
  shows "(msg = JNull \<longrightarrow>
            onMessage parse lc handlers ws data
              = (ws, [Log Debug, Close (ident ws) 4006 (Some null_read)]))
       \<and> (msg \<noteq> JNull \<and> (\<forall>props. msg = JObj props \<longrightarrow> map_of props ''type'' \<noteq> Some (JStr ''invoke''))
            \<longrightarrow> onMessage parse lc handlers ws data = (ws, [Log Debug]))"
  using assms
  by (cases msg) (simp_all add: onMessage_def tryBlock_def dispatch_def catchBlock_null_read)

theorem non_invoke_frame_witness:
  "onMessage sampleParse asciiLowerCase [fooHandler] (onConnection 0 (newClient 1)) ''null''
     = (onConnection 0 (newClient 1), [Log Debug, Close 1 4006 (Some null_read)])
   \<and> onMessage sampleParse asciiLowerCase [fooHandler] (onConnection 0 (newClient 1)) responseText
     = (onConnection 0 (newClient 1), [Log Debug])
   \<and> onMessage sampleParse asciiLowerCase [fooHandler] (onConnection 0 (newClient 1)) ''[1]''
     = (onConnection 0 (newClient 1), [Log Debug])"
proof -
  have p1: "sampleParse ''null'' = Inr JNull"
    by (simp add: sampleParse_frames)
  have p2: "sampleParse responseText = Inr (JObj [(''type'', JStr ''response''), (''id'', JNum 1)])"
    by (simp add: sampleParse_frames responseFrame_def)
  have p3: "sampleParse ''[1]'' = Inr (JArr [JNum 1])"
    by (simp add: sampleParse_frames)
  show ?thesis
    using non_invoke_frame [of sampleParse "''null''" JNull asciiLowerCase "[fooHandler]"
        "onConnection 0 (newClient 1)"]
      non_invoke_frame [of sampleParse responseText
        "JObj [(''type'', JStr ''response''), (''id'', JNum 1)]" asciiLowerCase "[fooHandler]"
        "onConnection 0 (newClient 1)"]
      non_invoke_frame [of sampleParse "''[1]''" "JArr [JNum 1]" asciiLowerCase "[fooHandler]"
        "onConnection 0 (newClient 1)"]
      p1 p2 p3
    by (simp add: onConnection_def newClient_def)
qed

end
